theory Spec2Isabelle
  imports Complex_Main
begin

section \<open>The per-second price generator of \<^verbatim>\<open>generator.py\<close>\<close>

text \<open>
  Python floats are modelled as \<^typ>\<open>real\<close> and Python ints as \<^typ>\<open>int\<close>: the
  development is about the arithmetic the generator writes down, not about the rounding of
  binary64. Every operation of the generator that raises on part of its domain returns an
  explicit error value there: \<^verbatim>\<open>math.sqrt\<close> and \<^verbatim>\<open>math.log\<close> outside their domain,
  \<^verbatim>\<open>** 2\<close> and \<^verbatim>\<open>math.exp\<close> when the result leaves the range of the floats.
\<close>

subsection \<open>Model parameters\<close>

definition GARCH_OMEGA :: real where
  "GARCH_OMEGA = 1 / 10 ^ 7"

definition GARCH_ALPHA :: real where
  "GARCH_ALPHA = 6 / 100"

definition GARCH_BETA :: real where
  "GARCH_BETA = 88 / 100"

definition GARCH_GAMMA :: real where
  "GARCH_GAMMA = 6 / 100"

text \<open>The keys \<^verbatim>\<open>"s1"\<close>, \<^verbatim>\<open>"m1"\<close>, \<^verbatim>\<open>"m5"\<close>, \<^verbatim>\<open>"h1"\<close>, \<^verbatim>\<open>"d1"\<close> of the two dictionaries
  indexed by timeframe.\<close>

datatype timeframe = S1 | M1 | M5 | H1 | D1

fun REVERSION_RANGES :: "timeframe \<Rightarrow> real \<times> real" where
  "REVERSION_RANGES S1 = (1 / 1000, 2 / 100)"
| "REVERSION_RANGES M1 = (2 / 1000, 5 / 100)"
| "REVERSION_RANGES M5 = (5 / 1000, 7 / 100)"
| "REVERSION_RANGES H1 = (1 / 100, 10 / 100)"
| "REVERSION_RANGES D1 = (10 / 100, 10 / 100)"

subsection \<open>Errors of the \<^verbatim>\<open>math\<close> module and of float arithmetic\<close>

datatype error = ValueError | OverflowError

text \<open>\<^verbatim>\<open>sys.float_info.max\<close>, the largest finite float: \<open>(2\<^sup>5\<^sup>3 - 1) \<cdot> 2\<^sup>9\<^sup>7\<^sup>1\<close>.\<close>

definition FLOAT_MAX :: real where
  "FLOAT_MAX = 2 ^ 1024 - 2 ^ 971"

text \<open>\<^verbatim>\<open>x ** 2\<close> on a float raises \<^verbatim>\<open>OverflowError\<close> when the square leaves the range of the
  floats, which for a float \<open>x\<close> is when \<open>\<bar>x\<bar> \<ge> 2\<^sup>5\<^sup>1\<^sup>2\<close>.\<close>

definition float_pow2 :: "real \<Rightarrow> error + real" where
  "float_pow2 x = (if 2 ^ 512 \<le> \<bar>x\<bar> then Inl OverflowError else Inr (x ^ 2))"

text \<open>\<^verbatim>\<open>math.exp\<close> raises \<^verbatim>\<open>OverflowError\<close> when the result leaves the range of the
  floats.\<close>

definition math_exp :: "real \<Rightarrow> error + real" where
  "math_exp x = (if FLOAT_MAX < exp x then Inl OverflowError else Inr (exp x))"

text \<open>\<^verbatim>\<open>math.sqrt\<close> raises \<^verbatim>\<open>ValueError\<close> on a negative argument.\<close>

definition math_sqrt :: "real \<Rightarrow> error + real" where
  "math_sqrt x = (if x < 0 then Inl ValueError else Inr (sqrt x))"

text \<open>\<^verbatim>\<open>math.log\<close> raises \<^verbatim>\<open>ValueError\<close> on an argument that is not positive.\<close>

definition math_log :: "real \<Rightarrow> error + real" where
  "math_log x = (if x \<le> 0 then Inl ValueError else Inr (ln x))"

subsection \<open>Seasonality and volatility\<close>

text \<open>The factor is the formula of the source over the reals, with the real cosine. The
  floats the code returns carry the rounding of \<^verbatim>\<open>math.cos\<close> and of the products, so an
  equation between the factors of two different minutes is a statement about this formula
  only.\<close>

definition u_seasonality :: "int \<Rightarrow> real" where
  "u_seasonality minute_of_day =
     (let x = 2 * pi * (real_of_int minute_of_day / 1440)
      in 75 / 100 + 5 / 10 * (cos x) ^ 2)"

text \<open>\<^verbatim>\<open>prev_return ** 2\<close> is evaluated on every path: always for \<^verbatim>\<open>new_variance\<close>, and
  before that for \<^verbatim>\<open>leverage_effect\<close> when the return is negative, each time with the same
  outcome.\<close>

definition get_garch_volatility :: "real \<Rightarrow> real \<Rightarrow> error + (real \<times> real)" where
  "get_garch_volatility prev_ret prev_var =
     (case float_pow2 prev_ret of
        Inl e \<Rightarrow> Inl e
      | Inr squared \<Rightarrow>
          (let leverage_effect = GARCH_GAMMA * (if prev_ret < 0 then squared else 0);
               new_variance = GARCH_OMEGA + GARCH_ALPHA * squared + leverage_effect
                              + GARCH_BETA * prev_var
           in case math_sqrt new_variance of
                Inl e \<Rightarrow> Inl e
              | Inr s \<Rightarrow> Inr (max (1 / 10 ^ 9) s, new_variance)))"

subsection \<open>The state of one stock's simulation\<close>

text \<open>The attributes of a \<^verbatim>\<open>SyntheticStream\<close> instance, in the order \<^verbatim>\<open>__init__\<close>
  creates them. The dictionary \<^verbatim>\<open>reversion_strength\<close> always holds the five timeframe keys,
  so it is a total function on \<^typ>\<open>timeframe\<close>.\<close>

record SyntheticStream =
  p :: real
  d1_open :: real
  h1_open :: real
  m5_open :: real
  m1_open :: real
  reversion_strength :: "timeframe \<Rightarrow> real"
  garch_variance :: real
  prev_return :: real
  boundary_trend :: int

text \<open>\<^verbatim>\<open>random.uniform(a, b)\<close> is \<^verbatim>\<open>a + (b - a) * random()\<close>; the draw of \<^verbatim>\<open>random()\<close> is an
  argument of the model.\<close>

definition random_uniform :: "real \<Rightarrow> real \<times> real \<Rightarrow> real" where
  "random_uniform draw ab = fst ab + (snd ab - fst ab) * draw"

text \<open>\<^verbatim>\<open>SyntheticStream.__init__\<close>, given the initial price and the five draws.\<close>

definition init :: "real \<Rightarrow> (timeframe \<Rightarrow> real) \<Rightarrow> SyntheticStream" where
  "init initial_price draws =
     \<lparr> p = initial_price,
       d1_open = initial_price,
       h1_open = initial_price,
       m5_open = initial_price,
       m1_open = initial_price,
       reversion_strength = (\<lambda>tf. random_uniform (draws tf) (REVERSION_RANGES tf) / 2),
       garch_variance = 1 / 10 ^ 5,
       prev_return = 0,
       boundary_trend = 0 \<rparr>"

subsection \<open>Snapshots: \<^verbatim>\<open>to_dict\<close> and \<^verbatim>\<open>from_dict\<close>\<close>

datatype pyval = PyFloat real | PyInt int | PyDict "timeframe \<Rightarrow> real"

text \<open>\<^verbatim>\<open>to_dict\<close> returns the instance's \<^verbatim>\<open>__dict__\<close>: every attribute under its name.\<close>

definition to_dict :: "SyntheticStream \<Rightarrow> (string \<times> pyval) list" where
  "to_dict st =
     [(''p'', PyFloat (p st)),
      (''d1_open'', PyFloat (d1_open st)),
      (''h1_open'', PyFloat (h1_open st)),
      (''m5_open'', PyFloat (m5_open st)),
      (''m1_open'', PyFloat (m1_open st)),
      (''reversion_strength'', PyDict (reversion_strength st)),
      (''garch_variance'', PyFloat (garch_variance st)),
      (''prev_return'', PyFloat (prev_return st)),
      (''boundary_trend'', PyInt (boundary_trend st))]"

text \<open>A number read back from a snapshot: Python computes with an int where a float is
  expected.\<close>

fun as_float :: "pyval \<Rightarrow> real option" where
  "as_float (PyFloat x) = Some x"
| "as_float (PyInt i) = Some (real_of_int i)"
| "as_float (PyDict d) = None"

text \<open>One step of \<^verbatim>\<open>instance.__dict__.update(data)\<close>: the attribute of that name takes the
  value. A name that is no attribute of the class, or a value of a type the attribute never
  holds, leaves the typed state as it is.\<close>

definition set_attr :: "string \<times> pyval \<Rightarrow> SyntheticStream \<Rightarrow> SyntheticStream" where
  "set_attr kv st =
     (let k = fst kv; v = snd kv in
      if k = ''p'' then (case as_float v of Some x \<Rightarrow> st\<lparr>p := x\<rparr> | None \<Rightarrow> st)
      else if k = ''d1_open'' then (case as_float v of Some x \<Rightarrow> st\<lparr>d1_open := x\<rparr> | None \<Rightarrow> st)
      else if k = ''h1_open'' then (case as_float v of Some x \<Rightarrow> st\<lparr>h1_open := x\<rparr> | None \<Rightarrow> st)
      else if k = ''m5_open'' then (case as_float v of Some x \<Rightarrow> st\<lparr>m5_open := x\<rparr> | None \<Rightarrow> st)
      else if k = ''m1_open'' then (case as_float v of Some x \<Rightarrow> st\<lparr>m1_open := x\<rparr> | None \<Rightarrow> st)
      else if k = ''reversion_strength'' then
        (case v of PyDict d \<Rightarrow> st\<lparr>reversion_strength := d\<rparr> | _ \<Rightarrow> st)
      else if k = ''garch_variance'' then
        (case as_float v of Some x \<Rightarrow> st\<lparr>garch_variance := x\<rparr> | None \<Rightarrow> st)
      else if k = ''prev_return'' then
        (case as_float v of Some x \<Rightarrow> st\<lparr>prev_return := x\<rparr> | None \<Rightarrow> st)
      else if k = ''boundary_trend'' then
        (case v of PyInt i \<Rightarrow> st\<lparr>boundary_trend := i\<rparr> | _ \<Rightarrow> st)
      else st)"

text \<open>\<^verbatim>\<open>from_dict\<close>: a fresh default instance (initial price 100, its own five draws),
  updated with every entry of the data.\<close>

definition from_dict :: "(timeframe \<Rightarrow> real) \<Rightarrow> (string \<times> pyval) list \<Rightarrow> SyntheticStream" where
  "from_dict draws data = fold set_attr data (init 100 draws)"

subsection \<open>One second of data\<close>

text \<open>The fields of \<^verbatim>\<open>now_dt\<close> the generator reads, and the value of
  \<^verbatim>\<open>now_dt.timestamp()\<close> in seconds.\<close>

record datetime =
  hour :: int
  minute :: int
  second :: int
  timestamp :: real

text \<open>The emitted dictionary with the keys \<^verbatim>\<open>"t"\<close>, \<^verbatim>\<open>"o"\<close>, \<^verbatim>\<open>"h"\<close>, \<^verbatim>\<open>"l"\<close>,
  \<^verbatim>\<open>"c"\<close>.\<close>

record Bar =
  bar_t :: int
  bar_o :: real
  bar_h :: real
  bar_l :: real
  bar_c :: real

text \<open>\<^verbatim>\<open>int(x)\<close> truncates towards zero.\<close>

definition py_int :: "real \<Rightarrow> int" where
  "py_int x = (if 0 \<le> x then \<lfloor>x\<rfloor> else \<lceil>x\<rceil>)"

text \<open>\<^verbatim>\<open>round(x, 2)\<close>: to two decimals, a tie going to the even neighbour.\<close>

definition round2 :: "real \<Rightarrow> real" where
  "round2 x =
     (let y = x * 100; f = \<lfloor>y\<rfloor>; d = y - real_of_int f
      in real_of_int (if d < 1 / 2 then f
                      else if 1 / 2 < d then f + 1
                      else if even f then f else f + 1) / 100)"

text \<open>Step 1: the time-based anchors.\<close>

definition update_anchors :: "SyntheticStream \<Rightarrow> datetime \<Rightarrow> SyntheticStream" where
  "update_anchors st now_dt =
     (if second now_dt = 0 then
        (let st1 = st\<lparr>m1_open := p st\<rparr>;
             st2 = (if minute now_dt mod 5 = 0 then st1\<lparr>m5_open := p st1\<rparr> else st1);
             st3 = (if minute now_dt = 0 then st2\<lparr>h1_open := p st2\<rparr> else st2)
         in if hour now_dt = 0 \<and> minute now_dt = 0 then st3\<lparr>d1_open := p st3\<rparr> else st3)
      else st)"

text \<open>Step 3: the five bands, in the order of the dictionary, and the most restrictive
  combination of them.\<close>

definition bands :: "SyntheticStream \<Rightarrow> (real \<times> real) list" where
  "bands st =
     (let s1_open = p st in
      [(s1_open * (1 - reversion_strength st S1), s1_open * (1 + reversion_strength st S1)),
       (m1_open st * (1 - reversion_strength st M1), m1_open st * (1 + reversion_strength st M1)),
       (m5_open st * (1 - reversion_strength st M5), m5_open st * (1 + reversion_strength st M5)),
       (h1_open st * (1 - reversion_strength st H1), h1_open st * (1 + reversion_strength st H1)),
       (d1_open st * (1 - reversion_strength st D1), d1_open st * (1 + reversion_strength st D1))])"

definition lower_bound :: "SyntheticStream \<Rightarrow> real" where
  "lower_bound st = Max (set (map fst (bands st)))"

definition upper_bound :: "SyntheticStream \<Rightarrow> real" where
  "upper_bound st = Min (set (map snd (bands st)))"

text \<open>Step 4: the total return, from the shock \<^verbatim>\<open>random.gauss(0, 1)\<close> (an argument of the
  model) and the drift of the boundary trend.\<close>

definition total_return :: "SyntheticStream \<Rightarrow> real \<Rightarrow> real \<Rightarrow> real" where
  "total_return st seasonal_vol gauss =
     (let base_return = gauss * seasonal_vol;
          boundary_drift = real_of_int (boundary_trend st) * seasonal_vol * (1 / 10)
      in base_return + boundary_drift)"

text \<open>Step 5: the close and the trend after the boundaries are enforced.\<close>

definition enforce_boundaries :: "real \<Rightarrow> real \<Rightarrow> real \<Rightarrow> int \<Rightarrow> real \<times> int" where
  "enforce_boundaries c lower upper trend =
     (if upper \<le> c then (upper, - 1)
      else if c \<le> lower then (lower, 1)
      else if trend \<noteq> 0 then
        (let channel_mid = (upper + lower) / 2 in
         if (trend = - 1 \<and> c < channel_mid) \<or> (trend = 1 \<and> channel_mid < c)
         then (c, 0) else (c, trend))
      else (c, trend))"

text \<open>The whole tick. It returns the state after the tick and the bar, or the error that
  the volatility model, \<^verbatim>\<open>math.exp\<close> or \<^verbatim>\<open>math.log\<close> raises.\<close>

definition generate_one_second ::
  "SyntheticStream \<Rightarrow> datetime \<Rightarrow> real \<Rightarrow> error + (SyntheticStream \<times> Bar)" where
  "generate_one_second st now_dt gauss =
     (let minute_of_day = hour now_dt * 60 + minute now_dt;
          st1 = update_anchors st now_dt
      in case get_garch_volatility (prev_return st1) (garch_variance st1) of
           Inl e \<Rightarrow> Inl e
         | Inr (sigma, new_variance) \<Rightarrow>
             (let st2 = st1\<lparr>garch_variance := new_variance\<rparr>;
                  seasonal_vol = sigma * u_seasonality minute_of_day;
                  o_price = p st2
              in case math_exp (total_return st2 seasonal_vol gauss) of
                   Inl e \<Rightarrow> Inl e
                 | Inr growth \<Rightarrow>
                     (let enforced = enforce_boundaries (o_price * growth)
                                       (lower_bound st2) (upper_bound st2) (boundary_trend st2);
                          c = fst enforced;
                          st3 = st2\<lparr>boundary_trend := snd enforced\<rparr>
                      in case (if o_price \<noteq> 0 then math_log (c / o_price) else Inr 0) of
                           Inl e \<Rightarrow> Inl e
                         | Inr r \<Rightarrow>
                             Inr (st3\<lparr>p := c, prev_return := r\<rparr>,
                                  \<lparr> bar_t = py_int (timestamp now_dt * 1000),
                                    bar_o = round2 o_price,
                                    bar_h = round2 (max o_price c),
                                    bar_l = round2 (min o_price c),
                                    bar_c = round2 c \<rparr>))))"

text \<open>The bars of one stock over the ticks of the main loop, each tick with its clock value
  and its shock.\<close>

fun run_ticks :: "SyntheticStream \<Rightarrow> (datetime \<times> real) list \<Rightarrow> error + Bar list" where
  "run_ticks st [] = Inr []"
| "run_ticks st ((now_dt, gauss) # rest) =
     (case generate_one_second st now_dt gauss of
        Inl e \<Rightarrow> Inl e
      | Inr (st', new_bar) \<Rightarrow>
          (case run_ticks st' rest of
             Inl e \<Rightarrow> Inl e
           | Inr bars \<Rightarrow> Inr (new_bar # bars)))"

subsection \<open>The quantities of a tick, and the volatility formula of the specification\<close>

text \<open>The candidate close \<^verbatim>\<open>o * math.exp(total_return)\<close> of a tick whose volatility model
  returned \<open>sigma\<close> and whose \<^verbatim>\<open>math.exp\<close> returned. It reads only the price and the trend,
  which step 1 and step 2 leave alone.\<close>

definition tick_candidate :: "SyntheticStream \<Rightarrow> datetime \<Rightarrow> real \<Rightarrow> real \<Rightarrow> real" where
  "tick_candidate st now_dt gauss sigma =
     p st * exp (total_return st (sigma * u_seasonality (hour now_dt * 60 + minute now_dt)) gauss)"

text \<open>The variance recursion and the floored volatility as the specification words them:
  \<open>newVariance = \<omega> + \<alpha>\<cdot>prevReturn\<^sup>2 + leverage + \<beta>\<cdot>prevVariance\<close> and
  \<open>sigma = sqrt (max \<epsilon> newVariance)\<close> with \<open>\<epsilon> = 1e-9\<close>.\<close>

definition spec_new_variance :: "real \<Rightarrow> real \<Rightarrow> real" where
  "spec_new_variance prev_ret prev_var =
     GARCH_OMEGA + GARCH_ALPHA * prev_ret ^ 2
       + (if prev_ret < 0 then GARCH_GAMMA * prev_ret ^ 2 else 0) + GARCH_BETA * prev_var"

definition spec_sigma :: "real \<Rightarrow> real" where
  "spec_sigma new_variance = sqrt (max (1 / 10 ^ 9) new_variance)"

subsection \<open>Concrete streams and clock values\<close>

text \<open>A stream at price 100 with all anchors at 100, the default variance and no trend.\<close>

definition example_strength :: "timeframe \<Rightarrow> real" where
  "example_strength tf =
     (case tf of S1 \<Rightarrow> 1 / 100 | M1 \<Rightarrow> 25 / 1000 | M5 \<Rightarrow> 35 / 1000
               | H1 \<Rightarrow> 5 / 100 | D1 \<Rightarrow> 5 / 100)"

definition example_stream :: SyntheticStream where
  "example_stream =
     \<lparr> p = 100, d1_open = 100, h1_open = 100, m5_open = 100, m1_open = 100,
       reversion_strength = example_strength,
       garch_variance = 1 / 10 ^ 5, prev_return = 0, boundary_trend = 0 \<rparr>"

text \<open>00:00:00, 00:01:01 and 00:02:00 of the first day of the epoch.\<close>

definition midnight :: datetime where
  "midnight = \<lparr> hour = 0, minute = 0, second = 0, timestamp = 0 \<rparr>"

definition mid_minute :: datetime where
  "mid_minute = \<lparr> hour = 0, minute = 1, second = 1, timestamp = 61 \<rparr>"

definition minute_start :: datetime where
  "minute_start = \<lparr> hour = 0, minute = 2, second = 0, timestamp = 120 \<rparr>"

text \<open>A stream whose one-minute anchor is far above its price: the one-minute band lies
  wholly above the one-second band.\<close>

definition drifted_stream :: SyntheticStream where
  "drifted_stream = example_stream\<lparr>m1_open := 200\<rparr>"

text \<open>A stream with a narrow one-minute band that opened the minute at 100.4 and has come
  down to 100 since.\<close>

definition sagging_strength :: "timeframe \<Rightarrow> real" where
  "sagging_strength tf =
     (case tf of S1 \<Rightarrow> 1 / 100 | M1 \<Rightarrow> 5 / 1000 | M5 \<Rightarrow> 35 / 1000
               | H1 \<Rightarrow> 5 / 100 | D1 \<Rightarrow> 5 / 100)"

definition sagging_stream :: SyntheticStream where
  "sagging_stream =
     \<lparr> p = 100, d1_open = 100, h1_open = 100, m5_open = 100, m1_open = 1004 / 10,
       reversion_strength = sagging_strength,
       garch_variance = 1 / 10 ^ 5, prev_return = 0, boundary_trend = 0 \<rparr>"

text \<open>The states and bars these streams reach in one tick: \<open>example_stream\<close> at
  00:00:00 with shock 0, \<open>drifted_stream\<close> at 00:01:01 with shock 0, and
  \<open>sagging_stream\<close> at 00:02:00 with shock -3.\<close>

definition example_after :: SyntheticStream where
  "example_after = example_stream\<lparr>garch_variance := 89 / 10 ^ 7\<rparr>"

definition example_bar :: Bar where
  "example_bar = \<lparr> bar_t = 0, bar_o = 100, bar_h = 100, bar_l = 100, bar_c = 100 \<rparr>"

definition drifted_after :: SyntheticStream where
  "drifted_after =
     drifted_stream\<lparr>garch_variance := 89 / 10 ^ 7, boundary_trend := 1, p := 195,
                     prev_return := ln (195 / 100)\<rparr>"

definition drifted_bar :: Bar where
  "drifted_bar = \<lparr> bar_t = 61000, bar_o = 100, bar_h = 195, bar_l = 100, bar_c = 195 \<rparr>"

definition sagging_after :: SyntheticStream where
  "sagging_after =
     sagging_stream\<lparr>m1_open := 100, garch_variance := 89 / 10 ^ 7, boundary_trend := 1,
                     p := 995 / 10, prev_return := ln (995 / 1000)\<rparr>"

definition sagging_bar :: Bar where
  "sagging_bar =
     \<lparr> bar_t = 120000, bar_o = 100, bar_h = 100, bar_l = 995 / 10, bar_c = 995 / 10 \<rparr>"

section \<open>Auxiliary facts\<close>

subsection \<open>Seasonality\<close>

lemma cos_sq_le_one: "(cos (x::real))\<^sup>2 \<le> 1"
  using abs_cos_le_one [of x] by (simp add: abs_square_le_1)

lemma u_at_0: "u_seasonality 0 = 5 / 4"
  by (simp add: u_seasonality_def)

lemma u_at_720: "u_seasonality 720 = 5 / 4"
  by (simp add: u_seasonality_def)

lemma u_at_360: "u_seasonality 360 = 3 / 4"
  by (simp add: u_seasonality_def)

lemma u_bounds: "3 / 4 \<le> u_seasonality m \<and> u_seasonality m \<le> 5 / 4"
  unfolding u_seasonality_def Let_def
  using cos_sq_le_one [of "2 * pi * (real_of_int m / 1440)"] by simp

subsection \<open>The volatility model\<close>

lemmas garch_consts = GARCH_OMEGA_def GARCH_ALPHA_def GARCH_BETA_def GARCH_GAMMA_def

lemma garch_unfold:
  "get_garch_volatility r v =
     (if 2 ^ 512 \<le> \<bar>r\<bar> then Inl OverflowError
      else if spec_new_variance r v < 0 then Inl ValueError
      else Inr (max (1 / 10 ^ 9) (sqrt (spec_new_variance r v)), spec_new_variance r v))"
  by (simp add: get_garch_volatility_def float_pow2_def Let_def math_sqrt_def
        spec_new_variance_def)

lemma garch_Inr:
  assumes "get_garch_volatility r v = Inr (sigma, nv)"
  shows "nv = spec_new_variance r v \<and> sigma = max (1 / 10 ^ 9) (sqrt nv) \<and> 0 \<le> nv
         \<and> \<bar>r\<bar> < 2 ^ 512"
  using assms unfolding garch_unfold by (auto split: if_splits)

lemma new_variance_ge_omega: "0 \<le> v \<Longrightarrow> GARCH_OMEGA \<le> spec_new_variance r v"
  by (simp add: spec_new_variance_def garch_consts)

lemma floor_below_its_root: "(1 / 10 ^ 9 :: real) \<le> sqrt (1 / 10 ^ 9)"
  by (rule real_le_rsqrt) (simp add: power2_eq_square)

lemma floors_agree:
  assumes "1 / 10 ^ 9 \<le> (x::real)"
  shows "max (1 / 10 ^ 9) (sqrt x) = spec_sigma x"
proof -
  have "sqrt (1 / 10 ^ 9) \<le> sqrt x" using assms by simp
  with floor_below_its_root have "1 / 10 ^ 9 \<le> sqrt x" by (rule order_trans)
  then show ?thesis using assms by (simp add: max_def spec_sigma_def)
qed

lemma garch_default:
  "get_garch_volatility 0 (1 / 10 ^ 5) = Inr (sqrt (89 / 10 ^ 7), 89 / 10 ^ 7)"
proof -
  have nv: "spec_new_variance 0 (1 / 10 ^ 5) = 89 / 10 ^ 7"
    by (simp add: spec_new_variance_def garch_consts)
  have "(1 / 10 ^ 9 :: real) \<le> sqrt (89 / 10 ^ 7)"
    by (rule real_le_rsqrt) (simp add: power2_eq_square)
  then show ?thesis
    unfolding garch_unfold nv by (simp add: max_def)
qed

lemma sqrt_default_ge: "29 / 10 ^ 4 \<le> sqrt (89 / 10 ^ 7)"
  by (rule real_le_rsqrt) (simp add: power2_eq_square)

lemma one_le_FLOAT_MAX: "1 \<le> FLOAT_MAX"
  by (simp add: FLOAT_MAX_def)

subsection \<open>The shape of a tick that returns\<close>

lemma update_anchors_keeps:
  "p (update_anchors st now_dt) = p st"
  "prev_return (update_anchors st now_dt) = prev_return st"
  "garch_variance (update_anchors st now_dt) = garch_variance st"
  "boundary_trend (update_anchors st now_dt) = boundary_trend st"
  "reversion_strength (update_anchors st now_dt) = reversion_strength st"
  by (simp_all add: update_anchors_def Let_def)

lemma update_anchors_sets:
  "m1_open (update_anchors st now_dt) = (if second now_dt = 0 then p st else m1_open st)"
  "m5_open (update_anchors st now_dt) =
     (if second now_dt = 0 \<and> minute now_dt mod 5 = 0 then p st else m5_open st)"
  "h1_open (update_anchors st now_dt) =
     (if second now_dt = 0 \<and> minute now_dt = 0 then p st else h1_open st)"
  "d1_open (update_anchors st now_dt) =
     (if second now_dt = 0 \<and> minute now_dt = 0 \<and> hour now_dt = 0 then p st else d1_open st)"
  by (simp_all add: update_anchors_def Let_def)

lemma bounds_ignore_variance:
  "lower_bound (st\<lparr>garch_variance := v\<rparr>) = lower_bound st"
  "upper_bound (st\<lparr>garch_variance := v\<rparr>) = upper_bound st"
  by (simp_all add: lower_bound_def upper_bound_def bands_def)

lemma total_return_ignores:
  "total_return ((update_anchors st now_dt)\<lparr>garch_variance := v\<rparr>) sv g =
     total_return st sv g"
  by (simp add: total_return_def update_anchors_keeps)

lemma tick_result:
  assumes "generate_one_second st now_dt gauss = Inr (st', bar)"
  shows "\<exists>sigma nv r.
           get_garch_volatility (prev_return st) (garch_variance st) = Inr (sigma, nv) \<and>
           st' = (update_anchors st now_dt)
                   \<lparr>garch_variance := nv,
                    boundary_trend :=
                      snd (enforce_boundaries (tick_candidate st now_dt gauss sigma)
                             (lower_bound (update_anchors st now_dt))
                             (upper_bound (update_anchors st now_dt)) (boundary_trend st)),
                    p :=
                      fst (enforce_boundaries (tick_candidate st now_dt gauss sigma)
                             (lower_bound (update_anchors st now_dt))
                             (upper_bound (update_anchors st now_dt)) (boundary_trend st)),
                    prev_return := r\<rparr>"
  using assms
  unfolding generate_one_second_def Let_def tick_candidate_def math_exp_def
  by (auto simp: update_anchors_keeps bounds_ignore_variance total_return_ignores
           split: sum.splits prod.splits if_splits)

lemma tick_compute:
  assumes "update_anchors st now_dt = st1"
    and "get_garch_volatility (prev_return st1) (garch_variance st1) = Inr (sigma, nv)"
    and "enforce_boundaries (tick_candidate st now_dt gauss sigma)
           (lower_bound st1) (upper_bound st1) (boundary_trend st) = (c, trend)"
    and "p st = o_price"
    and "exp (total_return st (sigma * u_seasonality (hour now_dt * 60 + minute now_dt)) gauss)
           \<le> FLOAT_MAX"
    and "o_price \<noteq> 0" and "0 < c / o_price"
  shows "generate_one_second st now_dt gauss =
           Inr (st1\<lparr>garch_variance := nv, boundary_trend := trend, p := c,
                     prev_return := ln (c / o_price)\<rparr>,
                \<lparr> bar_t = py_int (timestamp now_dt * 1000),
                  bar_o = round2 o_price,
                  bar_h = round2 (max o_price c),
                  bar_l = round2 (min o_price c),
                  bar_c = round2 c \<rparr>)"
proof -
  let ?sv = "sigma * u_seasonality (hour now_dt * 60 + minute now_dt)"
  have k: "p st1 = p st" "boundary_trend st1 = boundary_trend st"
    using assms(1) update_anchors_keeps [of st now_dt] by auto
  have tr: "total_return (st1\<lparr>garch_variance := nv\<rparr>) ?sv gauss = total_return st ?sv gauss"
    using assms(1) total_return_ignores [where st = st and now_dt = now_dt and v = nv]
    by simp
  have ex: "math_exp (total_return st ?sv gauss) = Inr (exp (total_return st ?sv gauss))"
    using assms(5) by (simp add: math_exp_def)
  have cc: "o_price * exp (total_return st ?sv gauss) = tick_candidate st now_dt gauss sigma"
    using assms(4) by (simp add: tick_candidate_def)
  show ?thesis
    unfolding generate_one_second_def Let_def assms(1) assms(2)
    using assms(4,6,7)
    by (simp add: tr ex k cc bounds_ignore_variance assms(3) math_log_def)
qed

subsection \<open>Three ticks computed\<close>

lemma round2_values: "round2 100 = 100" "round2 195 = 195" "round2 (995 / 10) = 995 / 10"
  by (simp_all add: round2_def)

lemma example_bounds:
  "lower_bound example_stream = 99" "upper_bound example_stream = 101"
  by (simp_all add: lower_bound_def upper_bound_def bands_def example_stream_def
        example_strength_def)

lemma drifted_bounds:
  "lower_bound drifted_stream = 195" "upper_bound drifted_stream = 101"
  by (simp_all add: lower_bound_def upper_bound_def bands_def drifted_stream_def
        example_stream_def example_strength_def)

lemma sagging_bounds:
  "lower_bound sagging_stream = 99898 / 1000" "upper_bound sagging_stream = 100902 / 1000"
  "lower_bound (sagging_stream\<lparr>m1_open := 100\<rparr>) = 995 / 10"
  "upper_bound (sagging_stream\<lparr>m1_open := 100\<rparr>) = 1005 / 10"
  by (simp_all add: lower_bound_def upper_bound_def bands_def sagging_stream_def
        sagging_strength_def)

lemma no_shock_no_return:
  assumes "boundary_trend st = 0"
  shows "total_return st sv 0 = 0"
  using assms by (simp add: total_return_def)

lemma sagging_volatility:
  "2 / 1000 \<le> sqrt (89 / 10 ^ 7) * u_seasonality (hour minute_start * 60 + minute minute_start)"
proof -
  let ?u = "u_seasonality (hour minute_start * 60 + minute minute_start)"
  have u: "3 / 4 \<le> ?u"
    using u_bounds [of "hour minute_start * 60 + minute minute_start"] by simp
  have "29 / 10 ^ 4 * (3 / 4) \<le> sqrt (89 / 10 ^ 7) * ?u"
    by (rule mult_mono [OF sqrt_default_ge u]) simp_all
  then show ?thesis by simp
qed

lemma sagging_return:
  "total_return sagging_stream
     (sqrt (89 / 10 ^ 7) * u_seasonality (hour minute_start * 60 + minute minute_start)) (- 3)
   = - (3 * (sqrt (89 / 10 ^ 7)
              * u_seasonality (hour minute_start * 60 + minute minute_start)))"
  by (simp add: total_return_def sagging_stream_def)

lemma sagging_candidate:
  "tick_candidate sagging_stream minute_start (- 3) (sqrt (89 / 10 ^ 7)) \<le> 995 / 10"
proof -
  let ?sv = "sqrt (89 / 10 ^ 7) * u_seasonality (hour minute_start * 60 + minute minute_start)"
  have "1 + 6 / 1000 \<le> exp (6 / 1000 :: real)"
    by (rule exp_ge_add_one_self)
  also have "\<dots> \<le> exp (3 * ?sv)"
  proof -
    have "6 / 1000 \<le> 3 * ?sv" using sagging_volatility by linarith
    then show ?thesis by (simp only: exp_le_cancel_iff)
  qed
  finally have "1006 / 1000 \<le> exp (3 * ?sv)" by simp
  then have "exp (- (3 * ?sv)) \<le> 1000 / 1006"
    unfolding exp_minus by (simp add: field_simps)
  then have "100 * exp (- (3 * ?sv)) \<le> 995 / 10" by simp
  moreover have "p sagging_stream = 100" by (simp add: sagging_stream_def)
  ultimately show ?thesis
    unfolding tick_candidate_def sagging_return by simp
qed

lemma example_tick:
  "generate_one_second example_stream midnight 0 = Inr (example_after, example_bar)"
proof -
  have a: "update_anchors example_stream midnight = example_stream"
    by (simp add: update_anchors_def example_stream_def midnight_def)
  have g: "get_garch_volatility (prev_return example_stream) (garch_variance example_stream)
      = Inr (sqrt (89 / 10 ^ 7), 89 / 10 ^ 7)"
    using garch_default by (simp add: example_stream_def)
  have t: "boundary_trend example_stream = 0" by (simp add: example_stream_def)
  have o: "p example_stream = 100" by (simp add: example_stream_def)
  have x: "exp (total_return example_stream
                  (sqrt (89 / 10 ^ 7) * u_seasonality (hour midnight * 60 + minute midnight)) 0)
           \<le> FLOAT_MAX"
    unfolding no_shock_no_return [OF t] using one_le_FLOAT_MAX by simp
  have c: "tick_candidate example_stream midnight 0 (sqrt (89 / 10 ^ 7)) = 100"
    unfolding tick_candidate_def no_shock_no_return [OF t] o by simp
  have e: "enforce_boundaries (tick_candidate example_stream midnight 0 (sqrt (89 / 10 ^ 7)))
             (lower_bound example_stream) (upper_bound example_stream)
             (boundary_trend example_stream) = (100, 0)"
    unfolding c example_bounds t by (simp add: enforce_boundaries_def)
  show ?thesis
    using tick_compute [OF a g e o x]
    by (simp add: round2_values py_int_def midnight_def example_after_def example_bar_def)
       (simp add: example_stream_def)
qed

lemma drifted_tick:
  "generate_one_second drifted_stream mid_minute 0 = Inr (drifted_after, drifted_bar)"
proof -
  have a: "update_anchors drifted_stream mid_minute = drifted_stream"
    by (simp add: update_anchors_def mid_minute_def)
  have g: "get_garch_volatility (prev_return drifted_stream) (garch_variance drifted_stream)
      = Inr (sqrt (89 / 10 ^ 7), 89 / 10 ^ 7)"
    using garch_default by (simp add: drifted_stream_def example_stream_def)
  have t: "boundary_trend drifted_stream = 0"
    by (simp add: drifted_stream_def example_stream_def)
  have o: "p drifted_stream = 100" by (simp add: drifted_stream_def example_stream_def)
  have x: "exp (total_return drifted_stream
                  (sqrt (89 / 10 ^ 7) * u_seasonality (hour mid_minute * 60 + minute mid_minute))
                  0)
           \<le> FLOAT_MAX"
    unfolding no_shock_no_return [OF t] using one_le_FLOAT_MAX by simp
  have c: "tick_candidate drifted_stream mid_minute 0 (sqrt (89 / 10 ^ 7)) = 100"
    unfolding tick_candidate_def no_shock_no_return [OF t] o by simp
  have e: "enforce_boundaries (tick_candidate drifted_stream mid_minute 0 (sqrt (89 / 10 ^ 7)))
             (lower_bound drifted_stream) (upper_bound drifted_stream)
             (boundary_trend drifted_stream) = (195, 1)"
    unfolding c drifted_bounds t by (simp add: enforce_boundaries_def)
  show ?thesis
    using tick_compute [OF a g e o x]
    by (simp add: round2_values py_int_def mid_minute_def drifted_after_def drifted_bar_def)
qed

lemma sagging_tick:
  "generate_one_second sagging_stream minute_start (- 3) = Inr (sagging_after, sagging_bar)"
proof -
  have a: "update_anchors sagging_stream minute_start = sagging_stream\<lparr>m1_open := 100\<rparr>"
    by (simp add: update_anchors_def minute_start_def sagging_stream_def)
  have g: "get_garch_volatility (prev_return (sagging_stream\<lparr>m1_open := 100\<rparr>))
             (garch_variance (sagging_stream\<lparr>m1_open := 100\<rparr>))
      = Inr (sqrt (89 / 10 ^ 7), 89 / 10 ^ 7)"
    using garch_default by (simp add: sagging_stream_def)
  have e: "enforce_boundaries
             (tick_candidate sagging_stream minute_start (- 3) (sqrt (89 / 10 ^ 7)))
             (lower_bound (sagging_stream\<lparr>m1_open := 100\<rparr>))
             (upper_bound (sagging_stream\<lparr>m1_open := 100\<rparr>))
             (boundary_trend sagging_stream) = (995 / 10, 1)"
    unfolding sagging_bounds using sagging_candidate by (simp add: enforce_boundaries_def)
  have o: "p sagging_stream = 100" by (simp add: sagging_stream_def)
  have x: "exp (total_return sagging_stream
                  (sqrt (89 / 10 ^ 7)
                     * u_seasonality (hour minute_start * 60 + minute minute_start)) (- 3))
           \<le> FLOAT_MAX"
  proof -
    have "- (3 * (sqrt (89 / 10 ^ 7)
                   * u_seasonality (hour minute_start * 60 + minute minute_start))) \<le> 0"
      using sagging_volatility by linarith
    then have "exp (- (3 * (sqrt (89 / 10 ^ 7)
                   * u_seasonality (hour minute_start * 60 + minute minute_start)))) \<le> 1"
      by (simp only: exp_le_one_iff)
    then show ?thesis
      unfolding sagging_return using one_le_FLOAT_MAX by (rule order_trans)
  qed
  have r: "round2 (199 / 2) = 199 / 2" using round2_values(3) by simp
  show ?thesis
    using tick_compute [OF a g e o x]
    by (simp add: round2_values r py_int_def minute_start_def sagging_after_def sagging_bar_def)
qed

section \<open>The claims\<close>

subsection \<open>Seasonality\<close>

text \<open>
  C3. The claim puts the minimum of the seasonality factor at midday, minute 720, as the
  docstring's U shape does. The code evaluated there returns 1.25: the value it returns at
  minute 0 and the largest value the factor takes at any minute, while at minute 360 it
  returns 0.75.
\<close>

theorem seasonality_at_midday:
  "u_seasonality 720 = 125 / 100
   \<and> u_seasonality 0 = 125 / 100
   \<and> u_seasonality 360 = 75 / 100
   \<and> u_seasonality 360 < u_seasonality 720
   \<and> u_seasonality m \<le> u_seasonality 720"
proof -
  have "u_seasonality m \<le> u_seasonality 720"
    using u_bounds [of m] by (simp add: u_at_720)
  then show ?thesis by (simp add: u_at_720 u_at_0 u_at_360)
qed

subsection \<open>The volatility model\<close>

text \<open>
  C2, as amended. Whenever the square of the previous return does not overflow
  (\<open>\<bar>prevReturn\<bar> < 2\<^sup>5\<^sup>1\<^sup>2\<close>) and the recursion result
  \<open>newVariance = \<omega> + \<alpha>\<cdot>prevReturn\<^sup>2 + leverage + \<beta>\<cdot>prevVariance\<close> is not negative, the
  volatility model returns \<open>sigma = max 1e-9 (sqrt newVariance)\<close>: the floor is applied to
  the square root, not inside it. That value is \<open>sqrt (max 1e-9 newVariance)\<close> whenever
  \<open>newVariance \<ge> 1e-9\<close>. The variance a tick stores back into the state is the unfloored
  recursion result.
\<close>

theorem garch_floor_on_sigma:
  "(\<bar>r\<bar> < 2 ^ 512 \<and> 0 \<le> spec_new_variance r v \<longrightarrow>
      get_garch_volatility r v =
        Inr (max (1 / 10 ^ 9) (sqrt (spec_new_variance r v)), spec_new_variance r v))
   \<and> (\<bar>r\<bar> < 2 ^ 512 \<and> 1 / 10 ^ 9 \<le> spec_new_variance r v \<longrightarrow>
      get_garch_volatility r v =
        Inr (spec_sigma (spec_new_variance r v), spec_new_variance r v))
   \<and> (generate_one_second st now_dt gauss = Inr (st', bar) \<longrightarrow>
      garch_variance st' = spec_new_variance (prev_return st) (garch_variance st))"
proof (intro conjI impI)
  assume "\<bar>r\<bar> < 2 ^ 512 \<and> 0 \<le> spec_new_variance r v"
  then show "get_garch_volatility r v =
      Inr (max (1 / 10 ^ 9) (sqrt (spec_new_variance r v)), spec_new_variance r v)"
    by (simp add: garch_unfold)
next
  assume a: "\<bar>r\<bar> < 2 ^ 512 \<and> 1 / 10 ^ 9 \<le> spec_new_variance r v"
  then have b: "1 / 10 ^ 9 \<le> spec_new_variance r v" by simp
  then have "\<not> spec_new_variance r v < 0" by simp
  then show "get_garch_volatility r v =
      Inr (spec_sigma (spec_new_variance r v), spec_new_variance r v)"
    unfolding garch_unfold using a floors_agree [OF b] by simp
next
  assume "generate_one_second st now_dt gauss = Inr (st', bar)"
  from tick_result [OF this] obtain sigma nv and r' :: real where
    g: "get_garch_volatility (prev_return st) (garch_variance st) = Inr (sigma, nv)"
    and s: "garch_variance st' = nv"
    by auto
  from garch_Inr [OF g] s
  show "garch_variance st' = spec_new_variance (prev_return st) (garch_variance st)"
    by simp
qed

theorem garch_floor_on_sigma_witness:
  "\<bar>0 :: real\<bar> < 2 ^ 512
   \<and> 0 \<le> spec_new_variance 0 (1 / 10 ^ 5)
   \<and> 1 / 10 ^ 9 \<le> spec_new_variance 0 (1 / 10 ^ 5)
   \<and> get_garch_volatility 0 (1 / 10 ^ 5) =
       Inr (spec_sigma (spec_new_variance 0 (1 / 10 ^ 5)), spec_new_variance 0 (1 / 10 ^ 5))
   \<and> generate_one_second example_stream midnight 0 = Inr (example_after, example_bar)
   \<and> garch_variance example_after =
       spec_new_variance (prev_return example_stream) (garch_variance example_stream)"
proof -
  have nv: "spec_new_variance 0 (1 / 10 ^ 5) = 89 / 10 ^ 7"
    by (simp add: spec_new_variance_def garch_consts)
  have h: "1 / 10 ^ 9 \<le> spec_new_variance 0 (1 / 10 ^ 5)" "0 \<le> spec_new_variance 0 (1 / 10 ^ 5)"
    unfolding nv by simp_all
  have z: "\<bar>0 :: real\<bar> < 2 ^ 512" by simp
  show ?thesis
    using z h example_tick
      garch_floor_on_sigma [of 0 "1 / 10 ^ 5" example_stream midnight 0 example_after example_bar]
    by blast
qed

text \<open>
  C2 as stated fails at \<open>prevReturn = 0\<close>, \<open>prevVariance = -1.13e-7\<close>: the recursion result
  is \<open>5.6e-10\<close>, the code returns its plain square root, and that is strictly below
  \<open>sqrt (max 1e-9 5.6e-10)\<close>.
\<close>

theorem garch_floor_counterexample:
  "spec_new_variance 0 (- 113 / 10 ^ 9) = 56 / 10 ^ 11
   \<and> get_garch_volatility 0 (- 113 / 10 ^ 9) = Inr (sqrt (56 / 10 ^ 11), 56 / 10 ^ 11)
   \<and> sqrt (56 / 10 ^ 11) < spec_sigma (56 / 10 ^ 11)"
proof -
  have nv: "spec_new_variance 0 (- 113 / 10 ^ 9) = 56 / 10 ^ 11"
    by (simp add: spec_new_variance_def garch_consts)
  have "(1 / 10 ^ 9 :: real) \<le> sqrt (56 / 10 ^ 11)"
    by (rule real_le_rsqrt) (simp add: power2_eq_square)
  then have "get_garch_volatility 0 (- 113 / 10 ^ 9) = Inr (sqrt (56 / 10 ^ 11), 56 / 10 ^ 11)"
    unfolding garch_unfold nv by (simp add: max_def)
  moreover have "sqrt (56 / 10 ^ 11) < spec_sigma (56 / 10 ^ 11)"
    by (simp add: spec_sigma_def)
  ultimately show ?thesis using nv by blast
qed

text \<open>
  C5, as amended. For every pair of finite inputs with \<open>\<bar>prevReturn\<bar> < 2\<^sup>5\<^sup>1\<^sup>2\<close> and
  \<open>prevVariance \<ge> 0\<close>, the volatility model returns without raising, and the sigma it
  returns is finite and strictly positive, indeed at least 1e-9. Finite is read as within
  the range of the floats, at most \<^verbatim>\<open>sys.float_info.max\<close> in absolute value, which the
  bound on the return already gives for it.
\<close>

theorem garch_returns_positive_sigma:
  assumes "\<bar>prev_ret\<bar> < 2 ^ 512" and "0 \<le> prev_var" and "prev_var \<le> FLOAT_MAX"
  shows "\<exists>sigma nv. get_garch_volatility prev_ret prev_var = Inr (sigma, nv)
           \<and> 0 < sigma \<and> 1 / 10 ^ 9 \<le> sigma \<and> sigma \<le> FLOAT_MAX"
proof -
  let ?nv = "spec_new_variance prev_ret prev_var"
  let ?sigma = "max (1 / 10 ^ 9) (sqrt ?nv)"
  have "GARCH_OMEGA \<le> ?nv" using assms(2) by (rule new_variance_ge_omega)
  then have pos: "0 \<le> ?nv" by (simp add: GARCH_OMEGA_def)
  then have g: "get_garch_volatility prev_ret prev_var = Inr (?sigma, ?nv)"
    using assms(1) by (simp add: garch_unfold)
  have sq: "prev_ret ^ 2 < 2 ^ 1024"
  proof -
    have "\<bar>prev_ret\<bar> ^ 2 < (2 ^ 512) ^ 2"
      using assms(1) by (intro power_strict_mono) simp_all
    then show ?thesis by simp
  qed
  have v: "prev_var < 2 ^ 1024"
    using assms(3) by (simp add: FLOAT_MAX_def)
  have "?nv \<le> 1 / 10 ^ 7 + 12 / 100 * prev_ret ^ 2 + 88 / 100 * prev_var"
    by (simp add: spec_new_variance_def garch_consts)
  also have "\<dots> \<le> 1 / 10 ^ 7 + 12 / 100 * 2 ^ 1024 + 88 / 100 * 2 ^ 1024"
    using sq v by simp
  also have "\<dots> \<le> (2 ^ 513) ^ 2" by simp
  finally have "sqrt ?nv \<le> 2 ^ 513"
    by (intro real_le_lsqrt pos) simp_all
  moreover have "(2 ^ 513 :: real) \<le> FLOAT_MAX" by (simp add: FLOAT_MAX_def)
  moreover have "(1 / 10 ^ 9 :: real) \<le> FLOAT_MAX" by (simp add: FLOAT_MAX_def)
  ultimately have fin: "?sigma \<le> FLOAT_MAX" by simp
  have "0 < ?sigma" by (simp add: less_max_iff_disj)
  moreover have "1 / 10 ^ 9 \<le> ?sigma" by simp
  ultimately show ?thesis using g fin by blast
qed

theorem garch_returns_positive_sigma_witness:
  "\<bar>0 :: real\<bar> < 2 ^ 512 \<and> (0::real) \<le> 1 / 10 ^ 5 \<and> 1 / 10 ^ 5 \<le> FLOAT_MAX
   \<and> (\<exists>sigma nv. get_garch_volatility 0 (1 / 10 ^ 5) = Inr (sigma, nv)
         \<and> 0 < sigma \<and> 1 / 10 ^ 9 \<le> sigma \<and> sigma \<le> FLOAT_MAX)"
proof -
  have h: "\<bar>0 :: real\<bar> < 2 ^ 512" "(0::real) \<le> 1 / 10 ^ 5" "1 / 10 ^ 5 \<le> FLOAT_MAX"
    by (simp_all add: FLOAT_MAX_def)
  show ?thesis using h garch_returns_positive_sigma [OF h] by blast
qed

text \<open>
  C5 as stated fails at two pairs of finite inputs. At \<open>prevReturn = 0\<close>,
  \<open>prevVariance = -1\<close> the recursion result is negative and the square root raises. At
  \<open>prevReturn = 2\<^sup>5\<^sup>1\<^sup>2\<close>, \<open>prevVariance = 0\<close> the square of the return overflows.
\<close>

theorem garch_raises_counterexample:
  "get_garch_volatility 0 (- 1) = Inl ValueError
   \<and> get_garch_volatility (2 ^ 512) 0 = Inl OverflowError"
  by (simp add: garch_unfold spec_new_variance_def garch_consts)

text \<open>
  C7. For every state whose stored variance is not negative: whenever the volatility model
  of a tick returns, the sigma it hands to the shock generation is at least \<open>sqrt 1e-9\<close> and
  the variance it hands back to be stored is at least \<open>\<omega> = 1e-7\<close>; and after any tick that
  returns, the stored variance is at least \<open>1e-7\<close>, hence not negative.
\<close>

theorem variance_and_sigma_floor:
  assumes "0 \<le> garch_variance st"
  shows "(get_garch_volatility (prev_return st) (garch_variance st) = Inr (sigma, nv) \<longrightarrow>
            sqrt (1 / 10 ^ 9) \<le> sigma \<and> 1 / 10 ^ 7 \<le> nv)
         \<and> (generate_one_second st now_dt gauss = Inr (st', bar) \<longrightarrow>
              1 / 10 ^ 7 \<le> garch_variance st' \<and> 0 \<le> garch_variance st')"
proof -
  have bounds: "sqrt (1 / 10 ^ 9) \<le> s \<and> 1 / 10 ^ 7 \<le> n"
    if g: "get_garch_volatility (prev_return st) (garch_variance st) = Inr (s, n)" for s n
  proof -
    from garch_Inr [OF g] have n: "n = spec_new_variance (prev_return st) (garch_variance st)"
      and s: "s = max (1 / 10 ^ 9) (sqrt n)" by simp_all
    have nv: "1 / 10 ^ 7 \<le> n"
      unfolding n using new_variance_ge_omega [OF assms, of "prev_return st"]
      by (simp add: GARCH_OMEGA_def)
    then have "sqrt (1 / 10 ^ 9) \<le> sqrt n"
      by (simp only: real_sqrt_le_iff) simp
    then have "sqrt (1 / 10 ^ 9) \<le> s"
      unfolding s by (simp add: le_max_iff_disj)
    with nv show ?thesis by simp
  qed
  have stored: "1 / 10 ^ 7 \<le> garch_variance st' \<and> 0 \<le> garch_variance st'"
    if t: "generate_one_second st now_dt gauss = Inr (st', bar)"
  proof -
    from tick_result [OF t] obtain s n and r' :: real where
      g: "get_garch_volatility (prev_return st) (garch_variance st) = Inr (s, n)"
      and "garch_variance st' = n"
      by auto
    with bounds [OF g] show ?thesis by simp
  qed
  from bounds stored show ?thesis by blast
qed

theorem variance_and_sigma_floor_witness:
  "0 \<le> garch_variance example_stream
   \<and> get_garch_volatility (prev_return example_stream) (garch_variance example_stream)
       = Inr (sqrt (89 / 10 ^ 7), 89 / 10 ^ 7)
   \<and> sqrt (1 / 10 ^ 9) \<le> sqrt (89 / 10 ^ 7) \<and> (1 / 10 ^ 7 :: real) \<le> 89 / 10 ^ 7
   \<and> generate_one_second example_stream midnight 0 = Inr (example_after, example_bar)
   \<and> 1 / 10 ^ 7 \<le> garch_variance example_after"
proof -
  have h: "0 \<le> garch_variance example_stream" by (simp add: example_stream_def)
  have g: "get_garch_volatility (prev_return example_stream) (garch_variance example_stream)
       = Inr (sqrt (89 / 10 ^ 7), 89 / 10 ^ 7)"
    using garch_default by (simp add: example_stream_def)
  show ?thesis
    using h g example_tick
      variance_and_sigma_floor [OF h, of "sqrt (89 / 10 ^ 7)" "89 / 10 ^ 7" midnight 0
        example_after example_bar]
    by blast
qed

subsection \<open>Boundaries and trend\<close>

text \<open>
  C6. On a tick that returns, with \<open>c\<close> the candidate close and \<open>[lower, upper]\<close> the
  effective boundary of the tick: if \<open>c \<ge> upper\<close> the close is \<open>upper\<close> and the trend becomes -1;
  else if \<open>c \<le> lower\<close> the close is \<open>lower\<close> and the trend becomes +1; else, if the trend is
  nonzero and the price has crossed the channel midpoint against the trend, the trend becomes
  0 and the close is \<open>c\<close>; else the close is \<open>c\<close> and the trend is unchanged. So the trend
  enters -1 only on a tick whose close is \<open>upper\<close>, and enters +1 only on a tick whose close
  is \<open>lower\<close>.
\<close>

theorem boundary_enforcer_behaviour:
  assumes "generate_one_second st now_dt gauss = Inr (st', bar)"
    and "get_garch_volatility (prev_return st) (garch_variance st) = Inr (sigma, nv)"
    and "c = tick_candidate st now_dt gauss sigma"
    and "lower = lower_bound (update_anchors st now_dt)"
    and "upper = upper_bound (update_anchors st now_dt)"
  shows "(p st', boundary_trend st') =
           (if upper \<le> c then (upper, - 1)
            else if c \<le> lower then (lower, 1)
            else if boundary_trend st \<noteq> 0 \<and>
                    ((boundary_trend st = - 1 \<and> c < (upper + lower) / 2) \<or>
                     (boundary_trend st = 1 \<and> (upper + lower) / 2 < c))
                 then (c, 0)
            else (c, boundary_trend st))
         \<and> (boundary_trend st' = - 1 \<and> boundary_trend st \<noteq> - 1 \<longrightarrow> p st' = upper)
         \<and> (boundary_trend st' = 1 \<and> boundary_trend st \<noteq> 1 \<longrightarrow> p st' = lower)"
proof -
  from tick_result [OF assms(1)] assms(2) obtain r :: real where
    st': "st' = (update_anchors st now_dt)
                  \<lparr>garch_variance := nv,
                   boundary_trend := snd (enforce_boundaries c lower upper (boundary_trend st)),
                   p := fst (enforce_boundaries c lower upper (boundary_trend st)),
                   prev_return := r\<rparr>"
    unfolding assms(3-5) by auto
  have pt: "(p st', boundary_trend st') = enforce_boundaries c lower upper (boundary_trend st)"
    unfolding st' by simp
  have eq: "enforce_boundaries c lower upper (boundary_trend st) =
           (if upper \<le> c then (upper, - 1)
            else if c \<le> lower then (lower, 1)
            else if boundary_trend st \<noteq> 0 \<and>
                    ((boundary_trend st = - 1 \<and> c < (upper + lower) / 2) \<or>
                     (boundary_trend st = 1 \<and> (upper + lower) / 2 < c))
                 then (c, 0)
            else (c, boundary_trend st))"
    by (simp add: enforce_boundaries_def Let_def)
  have down: "p st' = upper" if "boundary_trend st' = - 1" "boundary_trend st \<noteq> - 1"
    using that pt unfolding eq by (auto split: if_splits)
  have up: "p st' = lower" if "boundary_trend st' = 1" "boundary_trend st \<noteq> 1"
    using that pt unfolding eq by (auto split: if_splits)
  from pt eq down up show ?thesis by simp
qed

theorem boundary_enforcer_behaviour_witness:
  "generate_one_second sagging_stream minute_start (- 3) = Inr (sagging_after, sagging_bar)
   \<and> get_garch_volatility (prev_return sagging_stream) (garch_variance sagging_stream)
       = Inr (sqrt (89 / 10 ^ 7), 89 / 10 ^ 7)
   \<and> boundary_trend sagging_after = 1 \<and> boundary_trend sagging_stream \<noteq> 1
   \<and> p sagging_after = lower_bound (update_anchors sagging_stream minute_start)"
proof -
  have g: "get_garch_volatility (prev_return sagging_stream) (garch_variance sagging_stream)
       = Inr (sqrt (89 / 10 ^ 7), 89 / 10 ^ 7)"
    using garch_default by (simp add: sagging_stream_def)
  have t: "boundary_trend sagging_after = 1" "boundary_trend sagging_stream \<noteq> 1"
    by (simp_all add: sagging_after_def sagging_stream_def)
  show ?thesis
    using sagging_tick g t boundary_enforcer_behaviour [OF sagging_tick g refl refl refl]
    by blast
qed

text \<open>
  C4, as amended. On every tick that returns, the first included, the close (the new price,
  which the bar then rounds to two decimals) lies within the effective boundary \<open>[effectiveLower, effectiveUpper]\<close> computed from the price entering the
  tick and the anchors as they stand after this tick's anchor update, whenever that boundary
  is not inverted.
\<close>

theorem close_within_updated_boundary:
  assumes "generate_one_second st now_dt gauss = Inr (st', bar)"
    and "lower_bound (update_anchors st now_dt) \<le> upper_bound (update_anchors st now_dt)"
  shows "lower_bound (update_anchors st now_dt) \<le> p st'
         \<and> p st' \<le> upper_bound (update_anchors st now_dt)"
proof -
  from tick_result [OF assms(1)] obtain sigma and r :: real where
    "p st' = fst (enforce_boundaries (tick_candidate st now_dt gauss sigma)
                    (lower_bound (update_anchors st now_dt))
                    (upper_bound (update_anchors st now_dt)) (boundary_trend st))"
    by auto
  then show ?thesis
    using assms(2) by (simp add: enforce_boundaries_def Let_def)
qed

theorem close_within_updated_boundary_witness:
  "generate_one_second example_stream midnight 0 = Inr (example_after, example_bar)
   \<and> lower_bound (update_anchors example_stream midnight)
       \<le> upper_bound (update_anchors example_stream midnight)
   \<and> lower_bound (update_anchors example_stream midnight) \<le> p example_after
   \<and> p example_after \<le> upper_bound (update_anchors example_stream midnight)"
proof -
  have a: "update_anchors example_stream midnight = example_stream"
    by (simp add: update_anchors_def example_stream_def midnight_def)
  have h: "lower_bound (update_anchors example_stream midnight)
             \<le> upper_bound (update_anchors example_stream midnight)"
    unfolding a example_bounds by simp
  show ?thesis
    using example_tick h close_within_updated_boundary [OF example_tick h] by blast
qed

text \<open>
  C4 as stated fails on the stream that opened the minute at 100.4 and stands at 100 when
  00:02:00 arrives. The boundary of the anchors before the update, \<open>[99.898, 100.902]\<close>, is
  not inverted; the tick resets the one-minute anchor to 100 first, and with the shock -3
  the close is 99.5, below 99.898.
\<close>

theorem stale_anchor_counterexample:
  "lower_bound sagging_stream = 99898 / 1000
   \<and> upper_bound sagging_stream = 100902 / 1000
   \<and> generate_one_second sagging_stream minute_start (- 3) = Inr (sagging_after, sagging_bar)
   \<and> p sagging_after = 995 / 10 \<and> bar_c sagging_bar = 995 / 10
   \<and> p sagging_after < lower_bound sagging_stream"
  using sagging_tick
  by (simp add: sagging_bounds) (simp add: sagging_after_def sagging_bar_def)

text \<open>
  C1, as amended. On a tick that returns and whose effective boundary is inverted
  (\<open>effectiveLower > effectiveUpper\<close>), the close is \<open>effectiveUpper\<close> when the candidate close
  is at least \<open>effectiveUpper\<close> and \<open>effectiveLower\<close> otherwise; it is never the midpoint of
  the two.
\<close>

theorem inverted_boundary_close:
  assumes "generate_one_second st now_dt gauss = Inr (st', bar)"
    and "get_garch_volatility (prev_return st) (garch_variance st) = Inr (sigma, nv)"
    and "upper_bound (update_anchors st now_dt) < lower_bound (update_anchors st now_dt)"
  shows "p st' = (if upper_bound (update_anchors st now_dt) \<le> tick_candidate st now_dt gauss sigma
                  then upper_bound (update_anchors st now_dt)
                  else lower_bound (update_anchors st now_dt))
         \<and> p st' \<noteq> (lower_bound (update_anchors st now_dt)
                       + upper_bound (update_anchors st now_dt)) / 2"
proof -
  let ?c = "tick_candidate st now_dt gauss sigma"
  let ?lo = "lower_bound (update_anchors st now_dt)"
  let ?up = "upper_bound (update_anchors st now_dt)"
  from tick_result [OF assms(1)] assms(2) obtain r :: real where
    "p st' = fst (enforce_boundaries ?c ?lo ?up (boundary_trend st))"
    by auto
  then have "p st' = (if ?up \<le> ?c then ?up else ?lo)"
    using assms(3) by (simp add: enforce_boundaries_def Let_def)
  moreover have "?up \<noteq> (?lo + ?up) / 2" "?lo \<noteq> (?lo + ?up) / 2"
    using assms(3) by simp_all
  ultimately show ?thesis by simp
qed

theorem inverted_boundary_close_witness:
  "generate_one_second drifted_stream mid_minute 0 = Inr (drifted_after, drifted_bar)
   \<and> get_garch_volatility (prev_return drifted_stream) (garch_variance drifted_stream)
       = Inr (sqrt (89 / 10 ^ 7), 89 / 10 ^ 7)
   \<and> upper_bound (update_anchors drifted_stream mid_minute)
       < lower_bound (update_anchors drifted_stream mid_minute)
   \<and> p drifted_after \<noteq> (lower_bound (update_anchors drifted_stream mid_minute)
                           + upper_bound (update_anchors drifted_stream mid_minute)) / 2"
proof -
  have a: "update_anchors drifted_stream mid_minute = drifted_stream"
    by (simp add: update_anchors_def mid_minute_def)
  have g: "get_garch_volatility (prev_return drifted_stream) (garch_variance drifted_stream)
       = Inr (sqrt (89 / 10 ^ 7), 89 / 10 ^ 7)"
    using garch_default by (simp add: drifted_stream_def example_stream_def)
  have h: "upper_bound (update_anchors drifted_stream mid_minute)
       < lower_bound (update_anchors drifted_stream mid_minute)"
    unfolding a drifted_bounds by simp
  show ?thesis
    using g h inverted_boundary_close [OF drifted_tick g h] drifted_tick by blast
qed

text \<open>
  C1 as stated fails on the stream at 100 whose one-minute anchor is 200: at 00:01:01 the
  effective boundary is inverted, with lower bound 195 and upper bound 101, and with the
  shock 0 the close is 195, not the midpoint 148.
\<close>

theorem inverted_boundary_counterexample:
  "lower_bound (update_anchors drifted_stream mid_minute) = 195
   \<and> upper_bound (update_anchors drifted_stream mid_minute) = 101
   \<and> generate_one_second drifted_stream mid_minute 0 = Inr (drifted_after, drifted_bar)
   \<and> p drifted_after = 195 \<and> bar_c drifted_bar = 195
   \<and> p drifted_after \<noteq> (195 + 101) / 2"
proof -
  have a: "update_anchors drifted_stream mid_minute = drifted_stream"
    by (simp add: update_anchors_def mid_minute_def)
  show ?thesis
    unfolding a using drifted_tick
    by (simp add: drifted_bounds) (simp add: drifted_after_def drifted_bar_def)
qed

subsection \<open>Anchors\<close>

text \<open>
  C8. On a tick that returns, each stored anchor is the price entering the tick when its
  reset condition holds and is unchanged otherwise: \<open>m1_open\<close> is reset when the second is
  0, \<open>m5_open\<close> when in addition the minute is a multiple of 5, \<open>h1_open\<close> when in addition the
  minute is 0, and \<open>d1_open\<close> when in addition the hour is 0.
\<close>

theorem anchors_change_only_on_reset:
  assumes "generate_one_second st now_dt gauss = Inr (st', bar)"
  shows "m1_open st' = (if second now_dt = 0 then p st else m1_open st)
         \<and> m5_open st' =
             (if second now_dt = 0 \<and> minute now_dt mod 5 = 0 then p st else m5_open st)
         \<and> h1_open st' =
             (if second now_dt = 0 \<and> minute now_dt = 0 then p st else h1_open st)
         \<and> d1_open st' =
             (if second now_dt = 0 \<and> minute now_dt = 0 \<and> hour now_dt = 0
              then p st else d1_open st)"
proof -
  from tick_result [OF assms] obtain nv :: real and tr :: int and c r :: real where
    "st' = (update_anchors st now_dt)
             \<lparr>garch_variance := nv, boundary_trend := tr, p := c, prev_return := r\<rparr>"
    by blast
  then have "m1_open st' = m1_open (update_anchors st now_dt)"
    "m5_open st' = m5_open (update_anchors st now_dt)"
    "h1_open st' = h1_open (update_anchors st now_dt)"
    "d1_open st' = d1_open (update_anchors st now_dt)"
    by simp_all
  then show ?thesis by (simp only: update_anchors_sets)
qed

theorem anchors_change_only_on_reset_witness:
  "generate_one_second sagging_stream minute_start (- 3) = Inr (sagging_after, sagging_bar)
   \<and> m1_open sagging_stream = 1004 / 10 \<and> p sagging_stream = 100
   \<and> m1_open sagging_after = 100
   \<and> m5_open sagging_after = m5_open sagging_stream
   \<and> h1_open sagging_after = h1_open sagging_stream
   \<and> d1_open sagging_after = d1_open sagging_stream"
  using sagging_tick anchors_change_only_on_reset [OF sagging_tick]
  by (simp add: minute_start_def sagging_stream_def)

subsection \<open>Snapshots\<close>

text \<open>
  C9. Writing a state out with \<open>to_dict\<close> and restoring it with \<open>from_dict\<close> gives back a
  state equal to it in every field, whatever the fresh instance drew; so the restored state,
  fed the same clock values and shocks, yields the same bars (or the same error).
\<close>

theorem snapshot_round_trip:
  "from_dict draws (to_dict st) = st
   \<and> run_ticks (from_dict draws (to_dict st)) ticks = run_ticks st ticks"
proof -
  have "from_dict draws (to_dict st) = st"
    by (cases st) (simp add: from_dict_def to_dict_def set_attr_def init_def)
  then show ?thesis by simp
qed

end
